theory Spec2Isabelle
  imports Complex_Main
begin

section \<open>Python values used by the scorer\<close>

text \<open>
  The exceptions that \<^verbatim>\<open>kremblin_model.py\<close> can meet. All of them are subclasses of
  Python's \<^verbatim>\<open>Exception\<close>; none is a subclass of another one in this list.
\<close>

datatype pyerror =
    ValueError
  | KeyError
  | TypeError
  | ZeroDivisionError
  | OverflowError
  | FileNotFoundError
  | PermissionError

text \<open>
  A Python \<^verbatim>\<open>float\<close>. Finite values are idealised as real numbers (rounding to 53 bits,
  overflow of a finite result to infinity and the sign of zero are not represented); the
  three special values are kept, because the gates of the scorer and the conversions of
  the batch reader treat them differently from finite numbers.
\<close>

datatype pyfloat = Fin real | PInf | NInf | NaN

text \<open>
  A negative float raised to a fractional power is a Python \<^verbatim>\<open>complex\<close>, so the
  intermediate \<^verbatim>\<open>b8\<close> is a float or a complex number (real and imaginary part).
\<close>

datatype pynum = PFloat pyfloat | PComplex real real

instantiation pyfloat :: "{plus, minus, uminus, times}"
begin

fun uminus_pyfloat :: "pyfloat \<Rightarrow> pyfloat" where
  "uminus_pyfloat (Fin x) = Fin (- x)"
| "uminus_pyfloat PInf = NInf"
| "uminus_pyfloat NInf = PInf"
| "uminus_pyfloat NaN = NaN"

fun plus_pyfloat :: "pyfloat \<Rightarrow> pyfloat \<Rightarrow> pyfloat" where
  "plus_pyfloat NaN b = NaN"
| "plus_pyfloat a NaN = NaN"
| "plus_pyfloat (Fin x) (Fin y) = Fin (x + y)"
| "plus_pyfloat (Fin x) b = b"
| "plus_pyfloat a (Fin y) = a"
| "plus_pyfloat PInf PInf = PInf"
| "plus_pyfloat NInf NInf = NInf"
| "plus_pyfloat PInf NInf = NaN"
| "plus_pyfloat NInf PInf = NaN"

definition minus_pyfloat :: "pyfloat \<Rightarrow> pyfloat \<Rightarrow> pyfloat" where
  "minus_pyfloat a b = a + (- b)"

fun times_pyfloat :: "pyfloat \<Rightarrow> pyfloat \<Rightarrow> pyfloat" where
  "times_pyfloat NaN b = NaN"
| "times_pyfloat a NaN = NaN"
| "times_pyfloat (Fin x) (Fin y) = Fin (x * y)"
| "times_pyfloat (Fin x) PInf = (if x = 0 then NaN else if 0 < x then PInf else NInf)"
| "times_pyfloat (Fin x) NInf = (if x = 0 then NaN else if 0 < x then NInf else PInf)"
| "times_pyfloat PInf (Fin y) = (if y = 0 then NaN else if 0 < y then PInf else NInf)"
| "times_pyfloat NInf (Fin y) = (if y = 0 then NaN else if 0 < y then NInf else PInf)"
| "times_pyfloat PInf PInf = PInf"
| "times_pyfloat NInf NInf = PInf"
| "times_pyfloat PInf NInf = NInf"
| "times_pyfloat NInf PInf = NInf"

instance ..

end

text \<open>The comparisons \<^verbatim>\<open><=\<close>, \<^verbatim>\<open><\<close> and \<^verbatim>\<open>==\<close> of two floats: false whenever NaN takes part.\<close>

fun py_le :: "pyfloat \<Rightarrow> pyfloat \<Rightarrow> bool" where
  "py_le NaN b = False"
| "py_le a NaN = False"
| "py_le (Fin x) (Fin y) = (x \<le> y)"
| "py_le NInf b = True"
| "py_le a PInf = True"
| "py_le PInf b = False"
| "py_le a NInf = False"

fun py_lt :: "pyfloat \<Rightarrow> pyfloat \<Rightarrow> bool" where
  "py_lt NaN b = False"
| "py_lt a NaN = False"
| "py_lt (Fin x) (Fin y) = (x < y)"
| "py_lt PInf b = False"
| "py_lt a NInf = False"
| "py_lt NInf b = True"
| "py_lt a PInf = True"

definition py_gt :: "pyfloat \<Rightarrow> pyfloat \<Rightarrow> bool" where
  "py_gt a b = py_lt b a"

fun py_eq :: "pyfloat \<Rightarrow> pyfloat \<Rightarrow> bool" where
  "py_eq NaN b = False"
| "py_eq a NaN = False"
| "py_eq a b = (a = b)"

text \<open>An \<^verbatim>\<open>int\<close> operand of a float operation is converted to a float first.\<close>

definition float_of_int :: "int \<Rightarrow> pyfloat" where
  "float_of_int n = Fin (of_int n)"

text \<open>\<^verbatim>\<open>x ** n\<close> for a float \<open>x\<close> and a positive integer literal \<open>n\<close>.\<close>

fun float_pow_nat :: "pyfloat \<Rightarrow> nat \<Rightarrow> pyfloat" where
  "float_pow_nat (Fin x) n = Fin (x ^ n)"
| "float_pow_nat PInf n = PInf"
| "float_pow_nat NInf n = (if odd n then NInf else PInf)"
| "float_pow_nat NaN n = NaN"

text \<open>
  \<^verbatim>\<open>x ** (-0.5)\<close>, following the order of CPython's \<^verbatim>\<open>float_pow\<close>: NaN stays NaN; an
  infinite base with a negative exponent that is not an odd integer gives \<open>0.0\<close>; a zero
  base raises \<^verbatim>\<open>ZeroDivisionError\<close>; a negative base with a fractional exponent is handed
  to the complex power, which yields \<open>|x| ** (-0.5)\<close> at the angle \<open>- \<pi> / 2\<close>; a positive
  base is the ordinary power.
\<close>

fun float_pow_neg_half :: "pyfloat \<Rightarrow> pyerror + pynum" where
  "float_pow_neg_half NaN = Inr (PFloat NaN)"
| "float_pow_neg_half PInf = Inr (PFloat (Fin 0))"
| "float_pow_neg_half NInf = Inr (PFloat (Fin 0))"
| "float_pow_neg_half (Fin x) =
     (if x = 0 then Inl ZeroDivisionError
      else if x < 0 then Inr (PComplex 0 (- ((- x) powr (- 0.5))))
      else Inr (PFloat (Fin (x powr (- 0.5)))))"

text \<open>\<^verbatim>\<open>p * n\<close> for a float or complex \<open>p\<close> and an \<^verbatim>\<open>int\<close> \<open>n\<close>.\<close>

fun num_times_int :: "pynum \<Rightarrow> int \<Rightarrow> pynum" where
  "num_times_int (PFloat a) n = PFloat (a * float_of_int n)"
| "num_times_int (PComplex re im) n = PComplex (re * of_int n) (im * of_int n)"

section \<open>The scorer \<^verbatim>\<open>calculate_bbb_score\<close>\<close>

text \<open>C3, the aromatic rings score (source lines 26 to 38).\<close>

definition c3 :: "int \<Rightarrow> pyfloat" where
  "c3 aro_r =
     (if aro_r = 0 then Fin 0.336376
      else if aro_r = 1 then Fin 0.816016
      else if aro_r = 2 then Fin 1
      else if aro_r = 3 then Fin 0.691115
      else if aro_r = 4 then Fin 0.199399
      else Fin 0)"

text \<open>C4, the heavy atoms score (source lines 40 to 44).\<close>

definition c4 :: "int \<Rightarrow> pyfloat" where
  "c4 ha =
     (if ha \<le> 5 \<or> ha > 45 then Fin 0
      else Fin (1 / 0.624231) *
           (Fin 0.0000443 * float_of_int (ha ^ 3) - Fin 0.004556 * float_of_int (ha ^ 2)
            + Fin 0.12775 * float_of_int ha - Fin 0.463))"

text \<open>B8, the MWHBN intermediate (source lines 46 and 47).\<close>

definition b8 :: "pyfloat \<Rightarrow> int \<Rightarrow> int \<Rightarrow> pyerror + pynum" where
  "b8 mw hba hbd =
     (case float_pow_neg_half mw of
        Inl e \<Rightarrow> Inl e
      | Inr p \<Rightarrow> Inr (num_times_int p (hba + hbd)))"

text \<open>
  C8, the MWHBN score (source lines 49 to 53). Comparing a complex number with a float
  by \<^verbatim>\<open><=\<close> raises \<^verbatim>\<open>TypeError\<close>.
\<close>

fun c8 :: "pynum \<Rightarrow> pyerror + pyfloat" where
  "c8 (PComplex re im) = Inl TypeError"
| "c8 (PFloat b) =
     Inr (if py_le b (Fin 0.05) \<or> py_gt b (Fin 0.45) then Fin 0
          else Fin (1 / 0.72258) *
               (Fin 26.733 * float_pow_nat b 3 - Fin 31.495 * float_pow_nat b 2
                + Fin 9.5202 * b - Fin 0.1358))"

text \<open>C9, the TPSA score (source lines 55 to 59).\<close>

definition c9 :: "pyfloat \<Rightarrow> pyfloat" where
  "c9 tpsa =
     (if py_eq tpsa (Fin 0) \<or> py_gt tpsa (Fin 120) then Fin 0
      else Fin (1 / 0.9598) * (Fin (- 0.0067) * tpsa + Fin 0.9598))"

text \<open>C10, the pKa score (source lines 61 to 66).\<close>

definition c10 :: "pyfloat \<Rightarrow> pyfloat" where
  "c10 pka =
     (if py_le pka (Fin 3) \<or> py_gt pka (Fin 11) then Fin 0
      else Fin (1 / 0.597488) *
           (Fin 0.00045068 * float_pow_nat pka 4 - Fin 0.016331 * float_pow_nat pka 3
            + Fin 0.18618 * float_pow_nat pka 2 - Fin 0.71043 * pka + Fin 0.8579))"

text \<open>
  C11, the score (source lines 68 to 71). The blocks run in the source's order, so the
  \<^verbatim>\<open>ZeroDivisionError\<close> of B8 comes before the \<^verbatim>\<open>TypeError\<close> of C8, and either one
  leaves the function before a score exists.
\<close>

definition calculate_bbb_score ::
  "int \<Rightarrow> int \<Rightarrow> pyfloat \<Rightarrow> int \<Rightarrow> int \<Rightarrow> pyfloat \<Rightarrow> pyfloat \<Rightarrow> pyerror + pyfloat" where
  "calculate_bbb_score aro_r ha mw hba hbd tpsa pka =
     (case b8 mw hba hbd of
        Inl e \<Rightarrow> Inl e
      | Inr b \<Rightarrow>
          (case c8 b of
             Inl e \<Rightarrow> Inl e
           | Inr c8v \<Rightarrow>
               Inr (c3 aro_r + c4 ha + c8v * Fin 1.5 + c9 tpsa * Fin 2 + c10 pka * Fin 0.5)))"

section \<open>The batch reader \<^verbatim>\<open>process_csv\<close>\<close>

subsection \<open>Builtins, rows and the world\<close>

text \<open>
  Two builtins of Python are parameters of the model, so that every general statement
  holds for Python's own functions: \<open>str_to_float s\<close> is \<^verbatim>\<open>float(s)\<close> for a string \<open>s\<close>
  (\<open>None\<close> when it raises \<^verbatim>\<open>ValueError\<close>), and \<open>format_6f x\<close> is the text of
  \<^verbatim>\<open>f"{x:.6f}"\<close>.
\<close>

record builtins =
  str_to_float :: "string \<Rightarrow> pyfloat option"
  format_6f :: "pyfloat \<Rightarrow> string"

text \<open>
  A row produced by \<^verbatim>\<open>csv.DictReader\<close> is a dict from column names to cell texts.
  \<open>items\<close> holds the string keys in insertion order; an entry \<open>None\<close> is the reader's
  \<^verbatim>\<open>restval\<close> of a cell that the record lacks. \<open>rest\<close> is the entry under the key
  \<^verbatim>\<open>None\<close> (the reader's \<^verbatim>\<open>restkey\<close>): the cells beyond the last column name.
\<close>

record rowdict =
  items :: "(string \<times> string option) list"
  rest :: "string list option"

text \<open>\<^verbatim>\<open>d[k] = v\<close>: an existing key keeps its place, a new key goes last.\<close>

primrec dict_set :: "'k \<Rightarrow> 'v \<Rightarrow> ('k \<times> 'v) list \<Rightarrow> ('k \<times> 'v) list" where
  "dict_set k v [] = [(k, v)]"
| "dict_set k v (p # ps) = (if fst p = k then (k, v) # ps else p # dict_set k v ps)"

text \<open>\<^verbatim>\<open>dict(pairs)\<close>: the pairs are inserted from left to right.\<close>

definition dict_of :: "('k \<times> 'v) list \<Rightarrow> ('k \<times> 'v) list" where
  "dict_of pairs = foldl (\<lambda>d (k, v). dict_set k v d) [] pairs"

text \<open>
  What is printed. The texts are, in this order:
  \<^verbatim>\<open>Row {row_num}: BBB Score = {score:.6f}\<close>,
  \<^verbatim>\<open>Warning: Skipping row {row_num} due to error: {e}\<close>,
  \<^verbatim>\<open>Error: CSV file appears to be empty or malformed\<close>,
  \<^verbatim>\<open>Successfully processed {n} rows\<close>,
  \<^verbatim>\<open>Results saved to: {output_file}\<close>,
  \<^verbatim>\<open>Error: Input file '{input_file}' not found\<close> and
  \<^verbatim>\<open>Error processing CSV: {e}\<close>.
\<close>

datatype message =
    RowScore nat string
  | SkipWarning nat pyerror
  | EmptyOrMalformed
  | Success nat
  | SavedTo string
  | InputNotFound string
  | ProcessingError pyerror

text \<open>
  The world of one call. \<open>files p\<close> is what opening \<open>p\<close> for reading and reading it
  through the \<^verbatim>\<open>csv\<close> module gives: an exception, or the records of the file, each a
  list of cell texts (a blank line is the empty record). \<open>write_error p\<close> is the exception
  that opening \<open>p\<close> for writing raises, if any. \<open>stdout\<close> collects what is printed.
\<close>

record world =
  files :: "string \<Rightarrow> pyerror + string list list"
  write_error :: "string \<Rightarrow> pyerror option"
  stdout :: "message list"

subsection \<open>Reading one row\<close>

text \<open>
  \<^verbatim>\<open>DictReader.__next__\<close> on a record that is not blank: the dict of the zipped names
  and cells, then the surplus cells under the key \<^verbatim>\<open>None\<close>, or \<^verbatim>\<open>None\<close> values for
  the names that got no cell.
\<close>

definition dict_row :: "string list \<Rightarrow> string list \<Rightarrow> rowdict" where
  "dict_row fieldnames row =
     (let d = dict_of (zip fieldnames (map Some row));
          lf = length fieldnames;
          lr = length row
      in if lf < lr then \<lparr>items = d, rest = Some (drop lf row)\<rparr>
         else if lf > lr
           then \<lparr>items = foldl (\<lambda>d key. dict_set key None d) d (drop lr fieldnames),
                 rest = None\<rparr>
         else \<lparr>items = d, rest = None\<rparr>)"

definition try_bind :: "pyerror + 'a \<Rightarrow> ('a \<Rightarrow> pyerror + 'b) \<Rightarrow> pyerror + 'b" where
  "try_bind r f = (case r of Inl e \<Rightarrow> Inl e | Inr x \<Rightarrow> f x)"

text \<open>\<^verbatim>\<open>row[key]\<close> for a string key.\<close>

definition getitem :: "rowdict \<Rightarrow> string \<Rightarrow> pyerror + string option" where
  "getitem row key = (case map_of (items row) key of None \<Rightarrow> Inl KeyError | Some v \<Rightarrow> Inr v)"

text \<open>\<^verbatim>\<open>float(v)\<close>: \<^verbatim>\<open>TypeError\<close> for \<^verbatim>\<open>None\<close>, \<^verbatim>\<open>ValueError\<close> for a text that is no number.\<close>

definition py_float :: "builtins \<Rightarrow> string option \<Rightarrow> pyerror + pyfloat" where
  "py_float bi v =
     (case v of
        None \<Rightarrow> Inl TypeError
      | Some s \<Rightarrow> (case str_to_float bi s of None \<Rightarrow> Inl ValueError | Some x \<Rightarrow> Inr x))"

text \<open>
  \<^verbatim>\<open>int(x)\<close> for a float: truncation towards zero; \<^verbatim>\<open>ValueError\<close> for NaN and
  \<^verbatim>\<open>OverflowError\<close> for an infinity.
\<close>

fun py_int :: "pyfloat \<Rightarrow> pyerror + int" where
  "py_int (Fin x) = Inr (if 0 \<le> x then \<lfloor>x\<rfloor> else \<lceil>x\<rceil>)"
| "py_int NaN = Inl ValueError"
| "py_int PInf = Inl OverflowError"
| "py_int NInf = Inl OverflowError"

definition float_field :: "builtins \<Rightarrow> rowdict \<Rightarrow> string \<Rightarrow> pyerror + pyfloat" where
  "float_field bi row key = try_bind (getitem row key) (py_float bi)"

definition int_field :: "builtins \<Rightarrow> rowdict \<Rightarrow> string \<Rightarrow> pyerror + int" where
  "int_field bi row key = try_bind (float_field bi row key) py_int"

text \<open>The body of the inner \<^verbatim>\<open>try\<close> up to the call of the scorer (source lines 103 to 112).\<close>

definition score_row :: "builtins \<Rightarrow> rowdict \<Rightarrow> pyerror + pyfloat" where
  "score_row bi row =
     try_bind (int_field bi row ''aro_r'') (\<lambda>aro_r.
     try_bind (int_field bi row ''ha'') (\<lambda>ha.
     try_bind (float_field bi row ''mw'') (\<lambda>mw.
     try_bind (int_field bi row ''hba'') (\<lambda>hba.
     try_bind (int_field bi row ''hbd'') (\<lambda>hbd.
     try_bind (float_field bi row ''tpsa'') (\<lambda>tpsa.
     try_bind (float_field bi row ''pka'') (\<lambda>pka.
     calculate_bbb_score aro_r ha mw hba hbd tpsa pka)))))))"

subsection \<open>The loop over the rows\<close>

text \<open>
  The loop of source lines 100 to 122 from row number \<open>row_num\<close> on: what it prints, the
  rows it appends to \<^verbatim>\<open>rows_with_scores\<close>, and the exception that leaves the loop, if
  any. The inner handler catches \<^verbatim>\<open>ValueError\<close> and \<^verbatim>\<open>KeyError\<close> only.
\<close>

fun process_rows ::
  "builtins \<Rightarrow> nat \<Rightarrow> rowdict list \<Rightarrow> message list \<times> rowdict list \<times> pyerror option" where
  "process_rows bi row_num [] = ([], [], None)"
| "process_rows bi row_num (row # rows) =
     (case score_row bi row of
        Inr score \<Rightarrow>
          (case process_rows bi (Suc row_num) rows of
             (out, scored, err) \<Rightarrow>
               (RowScore row_num (format_6f bi score) # out,
                row\<lparr>items := dict_set ''bbb_score'' (Some (format_6f bi score)) (items row)\<rparr>
                  # scored,
                err))
      | Inl e \<Rightarrow>
          if e = ValueError \<or> e = KeyError
          then (case process_rows bi (Suc row_num) rows of
                  (out, scored, err) \<Rightarrow> (SkipWarning row_num e # out, scored, err))
          else ([], [], Some e))"

subsection \<open>Writing\<close>

text \<open>
  \<^verbatim>\<open>DictWriter._dict_to_list\<close> with the default \<^verbatim>\<open>extrasaction="raise"\<close> and
  \<^verbatim>\<open>restval=""\<close>: a key that is no field name (the key \<^verbatim>\<open>None\<close> never is one) raises
  \<^verbatim>\<open>ValueError\<close>; otherwise the values are taken in the order of the field names, and the
  writer prints \<^verbatim>\<open>None\<close> as the empty text.
\<close>

definition dict_to_list :: "string list \<Rightarrow> rowdict \<Rightarrow> pyerror + string list" where
  "dict_to_list fieldnames row =
     (if rest row \<noteq> None \<or> (\<exists>k \<in> set (map fst (items row)). k \<notin> set fieldnames)
      then Inl ValueError
      else Inr (map (\<lambda>key. case map_of (items row) key of
                             None \<Rightarrow> ''''
                           | Some None \<Rightarrow> ''''
                           | Some (Some s) \<Rightarrow> s) fieldnames))"

text \<open>\<^verbatim>\<open>writerows\<close>: the records written before the first row that raises, and the exception.\<close>

fun writerows :: "string list \<Rightarrow> rowdict list \<Rightarrow> string list list \<times> pyerror option" where
  "writerows fieldnames [] = ([], None)"
| "writerows fieldnames (row # rows) =
     (case dict_to_list fieldnames row of
        Inl e \<Rightarrow> ([], Some e)
      | Inr r \<Rightarrow> (case writerows fieldnames rows of (rs, err) \<Rightarrow> (r # rs, err)))"

subsection \<open>\<^verbatim>\<open>process_csv\<close>\<close>

text \<open>
  The body of the outer \<^verbatim>\<open>try\<close> (source lines 84 to 131): the world it leaves and the
  exception that leaves it, if any. An empty file has no first record, so \<^verbatim>\<open>fieldnames\<close>
  is \<^verbatim>\<open>None\<close>; blank records after the first one are not rows; rows count from 2.
\<close>

definition process_csv_try ::
  "builtins \<Rightarrow> string \<Rightarrow> string \<Rightarrow> world \<Rightarrow> world \<times> pyerror option" where
  "process_csv_try bi input_file output_file w =
     (case files w input_file of
        Inl e \<Rightarrow> (w, Some e)
      | Inr [] \<Rightarrow> (w\<lparr>stdout := stdout w @ [EmptyOrMalformed]\<rparr>, None)
      | Inr (fieldnames # records) \<Rightarrow>
          (let output_fieldnames = fieldnames @ [''bbb_score''] in
           case process_rows bi 2 (map (dict_row fieldnames) (filter (\<lambda>r. r \<noteq> []) records)) of
             (out, rows_with_scores, err) \<Rightarrow>
               (let w1 = w\<lparr>stdout := stdout w @ out\<rparr> in
                case err of
                  Some e \<Rightarrow> (w1, Some e)
                | None \<Rightarrow>
                    (case write_error w1 output_file of
                       Some e \<Rightarrow> (w1, Some e)
                     | None \<Rightarrow>
                         (case writerows output_fieldnames rows_with_scores of
                            (written, werr) \<Rightarrow>
                              (let w2 = w1\<lparr>files := (files w1)
                                              (output_file := Inr (output_fieldnames # written))\<rparr> in
                               case werr of
                                 Some e \<Rightarrow> (w2, Some e)
                               | None \<Rightarrow>
                                   (w2\<lparr>stdout := stdout w2 @
                                          [Success (length rows_with_scores),
                                           SavedTo output_file]\<rparr>,
                                    None)))))))"

text \<open>
  The two outer handlers (source lines 133 to 136): \<^verbatim>\<open>FileNotFoundError\<close> first, then
  every other \<^verbatim>\<open>Exception\<close>. The second component is the exception that reaches the
  caller.
\<close>

definition process_csv ::
  "builtins \<Rightarrow> string \<Rightarrow> string \<Rightarrow> world \<Rightarrow> world \<times> pyerror option" where
  "process_csv bi input_file output_file w =
     (case process_csv_try bi input_file output_file w of
        (w', None) \<Rightarrow> (w', None)
      | (w', Some e) \<Rightarrow>
          if e = FileNotFoundError
          then (w'\<lparr>stdout := stdout w' @ [InputNotFound input_file]\<rparr>, None)
          else (w'\<lparr>stdout := stdout w' @ [ProcessingError e]\<rparr>, None))"

subsection \<open>A small world for the examples\<close>

text \<open>
  The builtins on the texts and values of the examples below: \<^verbatim>\<open>float\<close> reads \<^verbatim>\<open>'0'\<close>,
  \<^verbatim>\<open>'2'\<close> and \<^verbatim>\<open>'100'\<close> as these numbers and raises \<^verbatim>\<open>ValueError\<close> on \<^verbatim>\<open>'abc'\<close>, and
  \<^verbatim>\<open>1.0\<close> is formatted as \<^verbatim>\<open>1.000000\<close>. The examples use no other text and format no
  other value; outside of them this table is not Python's.
\<close>

definition example_builtins :: builtins where
  "example_builtins =
     \<lparr>str_to_float = map_of [(''0'', Fin 0), (''2'', Fin 2), (''100'', Fin 100)],
      format_6f = (\<lambda>x. if x = Fin 1 then ''1.000000'' else ''0.000000'')\<rparr>"

text \<open>The seven column names that \<^verbatim>\<open>process_csv\<close> reads.\<close>

definition example_header :: "string list" where
  "example_header = [''aro_r'', ''ha'', ''mw'', ''hba'', ''hbd'', ''tpsa'', ''pka'']"

text \<open>
  A world in which \<^verbatim>\<open>in.csv\<close> holds the given records, no other file exists, every path
  can be opened for writing and nothing has been printed.
\<close>

definition example_world :: "string list list \<Rightarrow> world" where
  "example_world table =
     \<lparr>files = (\<lambda>p. if p = ''in.csv'' then Inr table else Inl FileNotFoundError),
      write_error = (\<lambda>p. None),
      stdout = []\<rparr>"

section \<open>Auxiliary facts\<close>

lemmas example_defs =
  example_builtins_def example_header_def example_world_def process_csv_def
  process_csv_try_def dict_row_def dict_of_def score_row_def int_field_def float_field_def
  getitem_def py_float_def try_bind_def calculate_bbb_score_def b8_def c3_def c4_def c9_def
  c10_def py_gt_def float_of_int_def dict_to_list_def

lemma times_pyfloat_commute: "(a::pyfloat) * b = b * a"
  by (cases a; cases b) (simp_all add: mult.commute)

lemma powr_neg_half_100: "(100::real) powr - (1 / 2) = 1 / 10"
proof -
  have "sqrt 100 = (10::real)"
    using real_sqrt_abs [of 10] by simp
  then show ?thesis
    by (simp add: powr_minus powr_half_sqrt inverse_eq_divide)
qed

subsection \<open>Dicts as association lists\<close>

lemma map_of_dict_set: "map_of (dict_set k v d) = (map_of d)(k \<mapsto> v)"
  by (induction d) (auto simp: fun_eq_iff)

lemma keys_dict_set: "fst ` set (dict_set k v d) = insert k (fst ` set d)"
  by (induction d) auto

lemma map_of_foldl_pairs:
  "map_of (foldl (\<lambda>d (k, v). dict_set k v d) d0 ps) = map_of d0 ++ map_of (rev ps)"
  by (induction ps arbitrary: d0)
     (auto simp: map_of_dict_set fun_eq_iff map_add_def split: option.splits)

lemma keys_foldl_pairs:
  "fst ` set (foldl (\<lambda>d (k, v). dict_set k v d) d0 ps) = fst ` set d0 \<union> fst ` set ps"
  by (induction ps arbitrary: d0) (simp_all add: keys_dict_set split_beta)

lemma map_of_foldl_none:
  "map_of (foldl (\<lambda>d key. dict_set key None d) d0 ks) k =
     (if k \<in> set ks then Some None else map_of d0 k)"
  by (induction ks arbitrary: d0) (auto simp: map_of_dict_set)

lemma keys_foldl_none:
  "fst ` set (foldl (\<lambda>d key. dict_set key None d) d0 ks) = fst ` set d0 \<union> set ks"
  by (induction ks arbitrary: d0) (simp_all add: keys_dict_set)

lemma map_of_rev_distinct:
  assumes "distinct (map fst ps)"
  shows "map_of (rev ps) = map_of ps"
proof (rule ext)
  fix k
  have d: "distinct (map fst (rev ps))"
    using assms by (simp add: rev_map [symmetric])
  have "\<And>v. (map_of (rev ps) k = Some v) = (map_of ps k = Some v)"
    using assms d by simp
  then show "map_of (rev ps) k = map_of ps k"
    by (metis not_Some_eq)
qed

lemma map_of_dict_of: "distinct (map fst ps) \<Longrightarrow> map_of (dict_of ps) = map_of ps"
  by (simp add: dict_of_def map_of_foldl_pairs map_of_rev_distinct)

lemma keys_dict_of: "fst ` set (dict_of ps) = fst ` set ps"
  by (simp add: dict_of_def keys_foldl_pairs)

subsection \<open>Rows of the reader\<close>

lemma dict_row_rest: "length r \<le> length fn \<Longrightarrow> rest (dict_row fn r) = None"
  by (simp add: dict_row_def Let_def)

lemma keys_zip_take:
  "length r \<le> length fn \<Longrightarrow> fst ` set (zip fn r) = set (take (length r) fn)"
  by (metis map_fst_zip_take min.absorb2 set_map)

lemma dict_row_keys:
  assumes "length r \<le> length fn"
  shows "fst ` set (items (dict_row fn r)) = set fn"
proof -
  have z: "fst ` set (zip fn (map Some r)) = set (take (length r) fn)"
    using keys_zip_take [of "map Some r" fn] assms by simp
  have "set (take (length r) fn) \<union> set (drop (length r) fn) = set fn"
    by (metis append_take_drop_id set_append)
  then show ?thesis
    using assms z by (auto simp: dict_row_def Let_def keys_dict_of keys_foldl_none)
qed

lemma zip_take_left: "zip xs ys = zip (take (length ys) xs) ys"
proof (induction xs arbitrary: ys)
  case Nil
  show ?case by simp
next
  case (Cons x xs)
  then show ?case by (cases ys) simp_all
qed

lemma dict_row_lookup:
  assumes "distinct fn" "length r \<le> length fn" "i < length fn"
  shows "map_of (items (dict_row fn r)) (fn ! i) =
           Some (if i < length r then Some (r ! i) else None)"
proof -
  let ?ps = "zip fn (map Some r)"
  have zt: "?ps = zip (take (length r) fn) (map Some r)"
    using zip_take_left [of fn "map Some r"] by simp
  have dist: "distinct (map fst ?ps)"
    using assms(1) by (simp add: map_fst_zip_take distinct_take)
  have look: "map_of (dict_of ?ps) = map_of ?ps"
    using dist by (rule map_of_dict_of)
  show ?thesis
  proof (cases "i < length r")
    case True
    have "map_of ?ps (take (length r) fn ! i) = Some (map Some r ! i)"
      unfolding zt using assms True by (intro map_of_zip_nth) (simp_all add: distinct_take)
    then have "map_of ?ps (fn ! i) = Some (Some (r ! i))"
      using True by simp
    moreover have "fn ! i \<notin> set (drop (length r) fn)"
      using assms True
      by (metis append_take_drop_id distinct_append disjoint_iff nth_take in_set_conv_nth
          length_take min.absorb2)
    ultimately show ?thesis
      using True assms by (simp add: dict_row_def Let_def look map_of_foldl_none)
  next
    case False
    have "drop (length r) fn ! (i - length r) = fn ! i"
      using False assms by simp
    moreover have "i - length r < length (drop (length r) fn)"
      using False assms by simp
    ultimately have "fn ! i \<in> set (drop (length r) fn)"
      by (metis nth_mem)
    then show ?thesis
      using False assms by (simp add: dict_row_def Let_def map_of_foldl_none)
  qed
qed

subsection \<open>A scored row on its way to the file\<close>

lemma scored_row_written:
  assumes "distinct fn" "''bbb_score'' \<notin> set fn" "length r \<le> length fn"
  shows "dict_to_list (fn @ [''bbb_score''])
           ((dict_row fn r)\<lparr>items := dict_set ''bbb_score'' (Some t) (items (dict_row fn r))\<rparr>)
         = Inr (r @ replicate (length fn - length r) '''' @ [t])"
proof -
  let ?d = "dict_row fn r"
  let ?f = "\<lambda>key. case map_of (dict_set ''bbb_score'' (Some t) (items ?d)) key of
                    None \<Rightarrow> '''' | Some None \<Rightarrow> '''' | Some (Some s) \<Rightarrow> s"
  have keys: "fst ` set (dict_set ''bbb_score'' (Some t) (items ?d)) =
                insert ''bbb_score'' (set fn)"
    using assms(3) by (simp add: keys_dict_set dict_row_keys)
  have cells: "map ?f fn = r @ replicate (length fn - length r) ''''"
  proof (rule nth_equalityI)
    show "length (map ?f fn) = length (r @ replicate (length fn - length r) '''')"
      using assms(3) by simp
  next
    fix i
    assume "i < length (map ?f fn)"
    then have i: "i < length fn" by simp
    then have ne: "fn ! i \<noteq> ''bbb_score''"
      using assms(2) by (metis nth_mem)
    show "map ?f fn ! i = (r @ replicate (length fn - length r) '''') ! i"
      using i ne dict_row_lookup [OF assms(1) assms(3) i]
      by (simp add: map_of_dict_set nth_append)
  qed
  have last: "?f ''bbb_score'' = t"
    by (simp add: map_of_dict_set)
  show ?thesis
    using keys cells last assms(3)
    by (simp add: dict_to_list_def dict_row_rest)
qed

lemma rows_then_write:
  assumes "distinct fn" "''bbb_score'' \<notin> set fn"
    and "\<forall>r \<in> set rs. case score_row bi (dict_row fn r) of
                          Inl e \<Rightarrow> e = ValueError \<or> e = KeyError
                        | Inr s \<Rightarrow> length r \<le> length fn"
  shows "\<exists>out scored.
           process_rows bi n (map (dict_row fn) rs) = (out, scored, None) \<and>
           writerows (fn @ [''bbb_score'']) scored =
             (concat (map (\<lambda>r. case score_row bi (dict_row fn r) of
                                  Inl e \<Rightarrow> []
                                | Inr s \<Rightarrow> [r @ replicate (length fn - length r) ''''
                                              @ [format_6f bi s]]) rs),
              None)"
  using assms(3)
proof (induction rs arbitrary: n)
  case Nil
  show ?case by simp
next
  case (Cons r rs)
  from Cons.prems have tl: "\<forall>r \<in> set rs. case score_row bi (dict_row fn r) of
                          Inl e \<Rightarrow> e = ValueError \<or> e = KeyError
                        | Inr s \<Rightarrow> length r \<le> length fn" by simp
  from Cons.IH [OF tl, of "Suc n"] obtain out scored where
    ih: "process_rows bi (Suc n) (map (dict_row fn) rs) = (out, scored, None)"
        "writerows (fn @ [''bbb_score'']) scored =
           (concat (map (\<lambda>r. case score_row bi (dict_row fn r) of
                                Inl e \<Rightarrow> []
                              | Inr s \<Rightarrow> [r @ replicate (length fn - length r) ''''
                                            @ [format_6f bi s]]) rs),
            None)"
    by blast
  show ?case
  proof (cases "score_row bi (dict_row fn r)")
    case (Inl e)
    with Cons.prems have "e = ValueError \<or> e = KeyError" by simp
    with Inl ih show ?thesis by auto
  next
    case (Inr s)
    with Cons.prems have len: "length r \<le> length fn" by simp
    show ?thesis
      using Inr ih scored_row_written [OF assms(1) assms(2) len, of "format_6f bi s"]
      by simp
  qed
qed

section \<open>The scorer\<close>

text \<open>
  Claim C5. The aromatic rings score is a lookup: 0 rings give 0.336376, 1 gives 0.816016,
  2 gives 1.0, 3 gives 0.691115, 4 gives 0.199399, and every other integer, negative or
  above 4, gives 0. With the other descriptors at values that zero their sub-scores
  (no heavy atoms, no hydrogen bond acceptors or donors, TPSA 0, pKa 0) the whole score
  is this value.
\<close>

theorem aromatic_ring_score:
  "c3 0 = Fin 0.336376 \<and> c3 1 = Fin 0.816016 \<and> c3 2 = Fin 1.0 \<and>
   c3 3 = Fin 0.691115 \<and> c3 4 = Fin 0.199399 \<and>
   (aro_r < 0 \<or> 4 < aro_r \<longrightarrow> c3 aro_r = Fin 0) \<and>
   (0 < mw \<longrightarrow>
      calculate_bbb_score aro_r 0 (Fin mw) 0 0 (Fin 0) (Fin 0) = Inr (c3 aro_r))"
  by (auto simp: c3_def calculate_bbb_score_def b8_def c4_def c9_def c10_def
      float_of_int_def)

theorem aromatic_ring_score_witness:
  "(4::int) < 5 \<and> (0::real) < 100 \<and> c3 5 = Fin 0 \<and>
   calculate_bbb_score 5 0 (Fin 100) 0 0 (Fin 0) (Fin 0) = Inr (Fin 0)"
  using aromatic_ring_score [of 5 100] by simp

text \<open>
  Claim C6. The heavy atoms score is 0 for every count of at most 5 or above 45, in
  particular for 0, 5, 46 and 1000, and for a count \<open>h\<close> with \<open>5 < h \<le> 45\<close> it is
  \<open>(1/0.624231) * (0.0000443 h\<^sup>3 - 0.004556 h\<^sup>2 + 0.12775 h - 0.463)\<close>.
\<close>

theorem heavy_atom_score:
  "(ha \<le> 5 \<or> 45 < ha \<longrightarrow> c4 ha = Fin 0) \<and>
   (5 < ha \<and> ha \<le> 45 \<longrightarrow>
      c4 ha = Fin ((1 / 0.624231) *
                   (0.0000443 * of_int ha ^ 3 - 0.004556 * of_int ha ^ 2
                    + 0.12775 * of_int ha - 0.463))) \<and>
   c4 0 = Fin 0 \<and> c4 5 = Fin 0 \<and> c4 46 = Fin 0 \<and> c4 1000 = Fin 0"
  by (auto simp: c4_def float_of_int_def minus_pyfloat_def)

theorem heavy_atom_score_witness:
  "(5::int) < 20 \<and> (20::int) \<le> 45 \<and>
   c4 20 = Fin ((1 / 0.624231) * (0.0000443 * 20 ^ 3 - 0.004556 * 20 ^ 2 + 0.12775 * 20 - 0.463)) \<and>
   (45::int) < 46 \<and> c4 46 = Fin 0"
  using heavy_atom_score [of 20] heavy_atom_score [of 46] by simp



text \<open>For an infinite molecular weight the power is 0.0, so B8 and C8 are 0.\<close>

lemma mwhbn_infinite_weight:
  "b8 PInf hba hbd = Inr (PFloat (Fin 0)) \<and> c8 (PFloat (Fin 0)) = Inr (Fin 0)"
  by (simp add: b8_def float_of_int_def)

text \<open>
  Claim C4. The TPSA score is 0 exactly when \<open>tpsa == 0\<close> or \<open>tpsa > 120\<close>; for every other
  value, every negative one included, it is \<open>(1/0.9598) * (-0.0067 tpsa + 0.9598)\<close>.
\<close>

theorem tpsa_score:
  "(c9 tpsa = Fin 0 \<longleftrightarrow> py_eq tpsa (Fin 0) \<or> py_gt tpsa (Fin 120)) \<and>
   (\<not> (py_eq tpsa (Fin 0) \<or> py_gt tpsa (Fin 120)) \<longrightarrow>
      c9 tpsa = Fin (1 / 0.9598) * (Fin (- 0.0067) * tpsa + Fin 0.9598)) \<and>
   (x \<noteq> 0 \<and> x \<le> 120 \<longrightarrow> c9 (Fin x) = Fin ((1 / 0.9598) * (- 0.0067 * x + 0.9598))) \<and>
   (x < 0 \<longrightarrow> c9 (Fin x) = Fin ((1 / 0.9598) * (- 0.0067 * x + 0.9598)))"
  by (cases tpsa) (auto simp: c9_def py_gt_def)

theorem tpsa_score_witness:
  "(- 5::real) \<noteq> 0 \<and> (- 5::real) \<le> 120 \<and> (- 5::real) < 0 \<and>
   \<not> (py_eq (Fin (- 5)) (Fin 0) \<or> py_gt (Fin (- 5)) (Fin 120)) \<and>
   c9 (Fin (- 5)) = Fin ((1 / 0.9598) * (- 0.0067 * (- 5) + 0.9598)) \<and>
   c9 (Fin (- 5)) \<noteq> Fin 0"
  using tpsa_score [of "Fin (- 5)" "- 5"] by (simp add: py_gt_def)

text \<open>
  Claim C8. The pKa score is 0 for every \<open>pka \<le> 3\<close> or \<open>pka > 11\<close>, the two infinities
  included, and for \<open>3 < pka \<le> 11\<close> it is
  \<open>(1/0.597488) * (0.00045068 pka\<^sup>4 - 0.016331 pka\<^sup>3 + 0.18618 pka\<^sup>2 - 0.71043 pka + 0.8579)\<close>.
\<close>

theorem pka_score:
  "(pka \<le> 3 \<or> 11 < pka \<longrightarrow> c10 (Fin pka) = Fin 0) \<and>
   (3 < pka \<and> pka \<le> 11 \<longrightarrow>
      c10 (Fin pka) =
        Fin ((1 / 0.597488) *
             (0.00045068 * pka ^ 4 - 0.016331 * pka ^ 3 + 0.18618 * pka ^ 2
              - 0.71043 * pka + 0.8579))) \<and>
   c10 NInf = Fin 0 \<and> c10 PInf = Fin 0"
  by (auto simp: c10_def py_gt_def minus_pyfloat_def)

theorem pka_score_witness:
  "(3::real) < 7 \<and> (7::real) \<le> 11 \<and>
   c10 (Fin 7) =
     Fin ((1 / 0.597488) *
          (0.00045068 * 7 ^ 4 - 0.016331 * 7 ^ 3 + 0.18618 * 7 ^ 2 - 0.71043 * 7 + 0.8579)) \<and>
   (3::real) \<le> 3 \<and> c10 (Fin 3) = Fin 0"
  using pka_score [of 7] pka_score [of 3] by simp

text \<open>
  Claim C3. Whenever the five sub-scores are defined, that is whenever B8 and C8 are
  computed without an exception, the score is \<open>C3 + C4 + 1.5 C8 + 2.0 C9 + 0.5 C10\<close>
  with these fixed weights.
\<close>

theorem composite_score:
  assumes "b8 mw hba hbd = Inr B8" and "c8 B8 = Inr C8"
  shows "calculate_bbb_score aro_r ha mw hba hbd tpsa pka =
           Inr (c3 aro_r + c4 ha + Fin 1.5 * C8 + Fin 2.0 * c9 tpsa + Fin 0.5 * c10 pka)"
  using assms by (simp add: calculate_bbb_score_def times_pyfloat_commute)

theorem composite_score_witness:
  "b8 (Fin 100) 3 1 = Inr (PFloat (Fin 0.4)) \<and>
   c8 (PFloat (Fin 0.4)) =
     Inr (Fin ((1 / 0.72258) * (26.733 * 0.4 ^ 3 - 31.495 * 0.4 ^ 2 + 9.5202 * 0.4 - 0.1358))) \<and>
   calculate_bbb_score 2 20 (Fin 100) 3 1 (Fin 60) (Fin 7) =
     Inr (c3 2 + c4 20
          + Fin 1.5 * Fin ((1 / 0.72258) *
                           (26.733 * 0.4 ^ 3 - 31.495 * 0.4 ^ 2 + 9.5202 * 0.4 - 0.1358))
          + Fin 2.0 * c9 (Fin 60) + Fin 0.5 * c10 (Fin 7))"
proof -
  have b: "b8 (Fin 100) 3 1 = Inr (PFloat (Fin 0.4))"
    by (simp add: b8_def float_of_int_def powr_neg_half_100)
  have c: "c8 (PFloat (Fin 0.4)) =
     Inr (Fin ((1 / 0.72258) * (26.733 * 0.4 ^ 3 - 31.495 * 0.4 ^ 2 + 9.5202 * 0.4 - 0.1358)))"
    by (simp add: py_gt_def minus_pyfloat_def)
  show ?thesis
    using composite_score [OF b c, of 2 20 "Fin 60" "Fin 7"] b c by simp
qed




section \<open>The batch reader\<close>

text \<open>
  Claim C2 does not hold for the code. A row with molecular weight 0 makes the scorer
  raise \<^verbatim>\<open>ZeroDivisionError\<close>, which the handler of the row does not catch: the outer
  handler prints one error, the well-formed row after it is never read, and no output
  file is written.
\<close>

theorem zero_weight_row_aborts_batch:
  "stdout (fst (process_csv example_builtins ''in.csv'' ''out.csv''
     (example_world [example_header,
        [''2'', ''0'', ''0'', ''0'', ''0'', ''0'', ''0''],
        [''2'', ''0'', ''100'', ''0'', ''0'', ''0'', ''0'']]))) =
     [ProcessingError ZeroDivisionError] \<and>
   files (fst (process_csv example_builtins ''in.csv'' ''out.csv''
     (example_world [example_header,
        [''2'', ''0'', ''0'', ''0'', ''0'', ''0'', ''0''],
        [''2'', ''0'', ''100'', ''0'', ''0'', ''0'', ''0'']]))) ''out.csv'' =
     Inl FileNotFoundError"
  by (simp add: example_defs)

text \<open>
  The sibling path: a row whose molecular weight is no number raises \<^verbatim>\<open>ValueError\<close>,
  is skipped with a warning that names row 2, and the next row is scored and written.
\<close>

lemma text_weight_row_is_skipped:
  "stdout (fst (process_csv example_builtins ''in.csv'' ''out.csv''
     (example_world [example_header,
        [''2'', ''0'', ''abc'', ''0'', ''0'', ''0'', ''0''],
        [''2'', ''0'', ''100'', ''0'', ''0'', ''0'', ''0'']]))) =
     [SkipWarning 2 ValueError, RowScore 3 ''1.000000'', Success 1, SavedTo ''out.csv''] \<and>
   files (fst (process_csv example_builtins ''in.csv'' ''out.csv''
     (example_world [example_header,
        [''2'', ''0'', ''abc'', ''0'', ''0'', ''0'', ''0''],
        [''2'', ''0'', ''100'', ''0'', ''0'', ''0'', ''0'']]))) ''out.csv'' =
     Inr [example_header @ [''bbb_score''],
          [''2'', ''0'', ''100'', ''0'', ''0'', ''0'', ''0'', ''1.000000'']]"
  by (simp add: example_defs)

text \<open>
  The same happens with the other exceptions that the handler of the row does not name:
  a row that lacks its last cell has \<^verbatim>\<open>None\<close> there, and \<^verbatim>\<open>float(None)\<close> raises
  \<^verbatim>\<open>TypeError\<close>.
\<close>

lemma short_row_aborts_batch:
  "stdout (fst (process_csv example_builtins ''in.csv'' ''out.csv''
     (example_world [example_header,
        [''2'', ''0'', ''100'', ''0'', ''0'', ''0''],
        [''2'', ''0'', ''100'', ''0'', ''0'', ''0'', ''0'']]))) =
     [ProcessingError TypeError] \<and>
   files (fst (process_csv example_builtins ''in.csv'' ''out.csv''
     (example_world [example_header,
        [''2'', ''0'', ''100'', ''0'', ''0'', ''0''],
        [''2'', ''0'', ''100'', ''0'', ''0'', ''0'', ''0'']]))) ''out.csv'' =
     Inl FileNotFoundError"
  by (simp add: example_defs)

text \<open>
  Claim C9, as the code has it. Let the input have a first record of distinct column
  names, none of them \<^verbatim>\<open>bbb_score\<close>; let the output open for writing; let every row
  that is not blank either be scored, having no more cells than there are column names,
  or raise \<^verbatim>\<open>ValueError\<close> or \<^verbatim>\<open>KeyError\<close>. Then the output file is the column names
  followed by \<^verbatim>\<open>bbb_score\<close>, and, for each scored row in the order of the input, its
  cells unchanged and in order, an empty text for each column it lacks, and the formatted
  score last.
\<close>

theorem scored_rows_keep_their_columns:
  assumes "files w input_file = Inr (fieldnames # records)"
    and "distinct fieldnames" and "''bbb_score'' \<notin> set fieldnames"
    and "write_error w output_file = None"
    and "\<forall>r \<in> set records. r \<noteq> [] \<longrightarrow>
           (case score_row bi (dict_row fieldnames r) of
              Inl e \<Rightarrow> e = ValueError \<or> e = KeyError
            | Inr s \<Rightarrow> length r \<le> length fieldnames)"
  shows "files (fst (process_csv bi input_file output_file w)) output_file =
           Inr ((fieldnames @ [''bbb_score'']) #
                concat (map (\<lambda>r. case score_row bi (dict_row fieldnames r) of
                                    Inl e \<Rightarrow> []
                                  | Inr s \<Rightarrow> [r @ replicate (length fieldnames - length r) ''''
                                                @ [format_6f bi s]])
                            (filter (\<lambda>r. r \<noteq> []) records)))"
proof -
  have "\<forall>r \<in> set (filter (\<lambda>r. r \<noteq> []) records).
          case score_row bi (dict_row fieldnames r) of
            Inl e \<Rightarrow> e = ValueError \<or> e = KeyError
          | Inr s \<Rightarrow> length r \<le> length fieldnames"
    using assms(5) by simp
  from rows_then_write [OF assms(2) assms(3) this, of 2] obtain out scored where
    "process_rows bi 2 (map (dict_row fieldnames) (filter (\<lambda>r. r \<noteq> []) records)) =
       (out, scored, None)"
    "writerows (fieldnames @ [''bbb_score'']) scored =
       (concat (map (\<lambda>r. case score_row bi (dict_row fieldnames r) of
                            Inl e \<Rightarrow> []
                          | Inr s \<Rightarrow> [r @ replicate (length fieldnames - length r) ''''
                                        @ [format_6f bi s]])
                    (filter (\<lambda>r. r \<noteq> []) records)), None)"
    by blast
  then show ?thesis
    using assms(1) assms(4)
    by (simp add: process_csv_def process_csv_try_def)
qed

text \<open>
  An instance: a table with an eighth column \<^verbatim>\<open>name\<close>, a scored row, a blank record,
  a row that is skipped for its molecular weight \<^verbatim>\<open>abc\<close>, and a scored row that lacks
  the eighth cell.
\<close>

theorem scored_rows_keep_their_columns_witness:
  "files (example_world
            [example_header @ [''name''],
             [''2'', ''0'', ''100'', ''0'', ''0'', ''0'', ''0'', ''caffeine''],
             [],
             [''2'', ''0'', ''abc'', ''0'', ''0'', ''0'', ''0'', ''x''],
             [''2'', ''0'', ''100'', ''0'', ''0'', ''0'', ''0'']]) ''in.csv'' =
     Inr ((example_header @ [''name'']) #
          [[''2'', ''0'', ''100'', ''0'', ''0'', ''0'', ''0'', ''caffeine''],
           [],
           [''2'', ''0'', ''abc'', ''0'', ''0'', ''0'', ''0'', ''x''],
           [''2'', ''0'', ''100'', ''0'', ''0'', ''0'', ''0'']]) \<and>
   distinct (example_header @ [''name'']) \<and>
   ''bbb_score'' \<notin> set (example_header @ [''name'']) \<and>
   files (fst (process_csv example_builtins ''in.csv'' ''out.csv''
     (example_world
        [example_header @ [''name''],
         [''2'', ''0'', ''100'', ''0'', ''0'', ''0'', ''0'', ''caffeine''],
         [],
         [''2'', ''0'', ''abc'', ''0'', ''0'', ''0'', ''0'', ''x''],
         [''2'', ''0'', ''100'', ''0'', ''0'', ''0'', ''0'']]))) ''out.csv'' =
     Inr [example_header @ [''name'', ''bbb_score''],
          [''2'', ''0'', ''100'', ''0'', ''0'', ''0'', ''0'', ''caffeine'', ''1.000000''],
          [''2'', ''0'', ''100'', ''0'', ''0'', ''0'', ''0'', [], ''1.000000'']]"
proof -
  let ?records = "[[''2'', ''0'', ''100'', ''0'', ''0'', ''0'', ''0'', ''caffeine''],
                   [],
                   [''2'', ''0'', ''abc'', ''0'', ''0'', ''0'', ''0'', ''x''],
                   [''2'', ''0'', ''100'', ''0'', ''0'', ''0'', ''0'']]"
  let ?fn = "example_header @ [''name'']"
  let ?w = "example_world (?fn # ?records)"
  have h1: "files ?w ''in.csv'' = Inr (?fn # ?records)"
    by (simp add: example_world_def)
  have h2: "distinct ?fn"
    by (simp add: example_header_def)
  have h3: "''bbb_score'' \<notin> set ?fn"
    by (simp add: example_header_def)
  have h4: "write_error ?w ''out.csv'' = None"
    by (simp add: example_world_def)
  have s1: "score_row example_builtins
              (dict_row ?fn [''2'', ''0'', ''100'', ''0'', ''0'', ''0'', ''0'', ''caffeine'']) =
            Inr (Fin 1)"
    by (simp add: example_defs)
  have s2: "score_row example_builtins
              (dict_row ?fn [''2'', ''0'', ''abc'', ''0'', ''0'', ''0'', ''0'', ''x'']) =
            Inl ValueError"
    by (simp add: example_defs)
  have s3: "score_row example_builtins
              (dict_row ?fn [''2'', ''0'', ''100'', ''0'', ''0'', ''0'', ''0'']) =
            Inr (Fin 1)"
    by (simp add: example_defs)
  have h5: "\<forall>r \<in> set ?records. r \<noteq> [] \<longrightarrow>
              (case score_row example_builtins (dict_row ?fn r) of
                 Inl e \<Rightarrow> e = ValueError \<or> e = KeyError
               | Inr s \<Rightarrow> length r \<le> length ?fn)"
    by (simp add: s1 s2 s3) (simp add: example_header_def)
  have "files (fst (process_csv example_builtins ''in.csv'' ''out.csv'' ?w)) ''out.csv'' =
          Inr [example_header @ [''name'', ''bbb_score''],
               [''2'', ''0'', ''100'', ''0'', ''0'', ''0'', ''0'', ''caffeine'', ''1.000000''],
               [''2'', ''0'', ''100'', ''0'', ''0'', ''0'', ''0'', [], ''1.000000'']]"
    using scored_rows_keep_their_columns [OF h1 h2 h3 h4 h5]
    by (simp add: s1 s2 s3) (simp add: example_header_def example_builtins_def)
  with h1 h2 h3 show ?thesis
    by blast
qed

text \<open>
  Claim C9 as stated fails when the input already has a column \<^verbatim>\<open>bbb_score\<close>: the row
  is scored, and its cell \<^verbatim>\<open>old\<close> in that column is replaced by the score.
\<close>

theorem score_column_overwritten:
  "files (fst (process_csv example_builtins ''in.csv'' ''out.csv''
     (example_world [example_header @ [''bbb_score''],
        [''2'', ''0'', ''100'', ''0'', ''0'', ''0'', ''0'', ''old'']]))) ''out.csv'' =
     Inr [example_header @ [''bbb_score'', ''bbb_score''],
          [''2'', ''0'', ''100'', ''0'', ''0'', ''0'', ''0'', ''1.000000'', ''1.000000'']]"
  by (simp add: example_defs)

text \<open>
  The other hypotheses are needed as well. A scored row with a surplus cell makes the
  writer raise \<^verbatim>\<open>ValueError\<close> after the header, and of two columns with one name the
  first gets the cell of the second.
\<close>

lemma surplus_cell_row_stops_writer:
  "stdout (fst (process_csv example_builtins ''in.csv'' ''out.csv''
     (example_world [example_header,
        [''2'', ''0'', ''100'', ''0'', ''0'', ''0'', ''0'', ''extra'']]))) =
     [RowScore 2 ''1.000000'', ProcessingError ValueError] \<and>
   files (fst (process_csv example_builtins ''in.csv'' ''out.csv''
     (example_world [example_header,
        [''2'', ''0'', ''100'', ''0'', ''0'', ''0'', ''0'', ''extra'']]))) ''out.csv'' =
     Inr [example_header @ [''bbb_score'']]"
  by (simp add: example_defs)

lemma duplicate_column_collapses:
  "files (fst (process_csv example_builtins ''in.csv'' ''out.csv''
     (example_world [''id'' # ''id'' # example_header,
        [''a'', ''b'', ''2'', ''0'', ''100'', ''0'', ''0'', ''0'', ''0'']]))) ''out.csv'' =
     Inr [''id'' # ''id'' # example_header @ [''bbb_score''],
          [''b'', ''b'', ''2'', ''0'', ''100'', ''0'', ''0'', ''0'', ''0'', ''1.000000'']]"
  by (simp add: example_defs)



end
